theory Spec2Isabelle
  imports Complex_Main
begin

section \<open>JavaScript numbers and strings\<close>

text \<open>
  The tracker is a single JavaScript file, \<^verbatim>\<open>script.js\<close>. Its amounts are JavaScript
  numbers. A number is modelled as \<open>NaN\<close>, one of the two infinities, or an exact rational:
  the rounding of IEEE doubles and the sign of zero are left out. The model agrees with the
  program as long as the finite values are integers of magnitude below \<open>2^53\<close> (the fils
  amounts the tracker is written for), where double arithmetic is exact.

  A string is a list of 8-bit characters, read as UTF-16 code units below 256.
\<close>

datatype jsnum = NaN | PInf | NInf | Fin rat

instantiation jsnum :: "{zero, plus, uminus, minus, times}"
begin

definition zero_jsnum :: jsnum where
  "zero_jsnum = Fin 0"

fun plus_jsnum :: "jsnum \<Rightarrow> jsnum \<Rightarrow> jsnum" where
  "plus_jsnum (Fin a) (Fin b) = Fin (a + b)"
| "plus_jsnum NaN _ = NaN"
| "plus_jsnum _ NaN = NaN"
| "plus_jsnum PInf NInf = NaN"
| "plus_jsnum NInf PInf = NaN"
| "plus_jsnum PInf _ = PInf"
| "plus_jsnum _ PInf = PInf"
| "plus_jsnum NInf _ = NInf"
| "plus_jsnum _ NInf = NInf"

fun uminus_jsnum :: "jsnum \<Rightarrow> jsnum" where
  "uminus_jsnum NaN = NaN"
| "uminus_jsnum PInf = NInf"
| "uminus_jsnum NInf = PInf"
| "uminus_jsnum (Fin a) = Fin (- a)"

definition minus_jsnum :: "jsnum \<Rightarrow> jsnum \<Rightarrow> jsnum" where
  "minus_jsnum a b = a + (- b)"

fun times_jsnum :: "jsnum \<Rightarrow> jsnum \<Rightarrow> jsnum" where
  "times_jsnum (Fin a) (Fin b) = Fin (a * b)"
| "times_jsnum NaN _ = NaN"
| "times_jsnum _ NaN = NaN"
| "times_jsnum (Fin a) PInf = (if a = 0 then NaN else if a < 0 then NInf else PInf)"
| "times_jsnum (Fin a) NInf = (if a = 0 then NaN else if a < 0 then PInf else NInf)"
| "times_jsnum PInf (Fin b) = (if b = 0 then NaN else if b < 0 then NInf else PInf)"
| "times_jsnum NInf (Fin b) = (if b = 0 then NaN else if b < 0 then PInf else NInf)"
| "times_jsnum PInf PInf = PInf"
| "times_jsnum NInf NInf = PInf"
| "times_jsnum PInf NInf = NInf"
| "times_jsnum NInf PInf = NInf"

instance ..

end

text \<open>The relational operators \<^verbatim>\<open><\<close>, \<^verbatim>\<open><=\<close> and \<^verbatim>\<open>>\<close>: every comparison with \<open>NaN\<close> is false.\<close>

fun js_lt :: "jsnum \<Rightarrow> jsnum \<Rightarrow> bool" where
  "js_lt (Fin a) (Fin b) = (a < b)"
| "js_lt NaN _ = False"
| "js_lt _ NaN = False"
| "js_lt PInf _ = False"
| "js_lt _ PInf = True"
| "js_lt NInf NInf = False"
| "js_lt NInf _ = True"
| "js_lt _ NInf = False"

definition js_le :: "jsnum \<Rightarrow> jsnum \<Rightarrow> bool" where
  "js_le a b = (a \<noteq> NaN \<and> b \<noteq> NaN \<and> \<not> js_lt b a)"

definition js_gt :: "jsnum \<Rightarrow> jsnum \<Rightarrow> bool" where
  "js_gt a b = js_lt b a"



definition fils :: "int \<Rightarrow> jsnum" where
  "fils n = Fin (of_int n)"

subsection \<open>\<^verbatim>\<open>Number(string)\<close>\<close>

text \<open>The decimal digits are the code units 48 to 57.\<close>

definition is_digit :: "char \<Rightarrow> bool" where
  "is_digit c = (48 \<le> (of_char c :: nat) \<and> (of_char c :: nat) \<le> 57)"

definition digit_val :: "char \<Rightarrow> nat" where
  "digit_val c = of_char c - 48"

definition digits_val :: "string \<Rightarrow> nat" where
  "digits_val s = foldl (\<lambda>n c. 10 * n + digit_val c) 0 s"

text \<open>
  White space and line terminators below 256: TAB, LF, VT, FF, CR, space and the no-break
  space.
\<close>

definition StrWhiteSpaceChar :: "char \<Rightarrow> bool" where
  "StrWhiteSpaceChar c = ((of_char c :: nat) \<in> set [9, 10, 11, 12, 13, 32, 160])"

definition trim :: "string \<Rightarrow> string" where
  "trim s = rev (dropWhile StrWhiteSpaceChar (rev (dropWhile StrWhiteSpaceChar s)))"

definition pow10 :: "int \<Rightarrow> rat" where
  "pow10 e = (if 0 \<le> e then 10 ^ nat e else 1 / 10 ^ nat (- e))"

text \<open>The value of a character as a digit in base \<open>b\<close> (2, 8 or 16), if it is one.\<close>

definition radix_digit :: "nat \<Rightarrow> char \<Rightarrow> nat option" where
  "radix_digit b c =
     (let n = (of_char c :: nat);
          v = (if 48 \<le> n \<and> n \<le> 57 then Some (n - 48)
               else if 97 \<le> n \<and> n \<le> 102 then Some (n - 87)
               else if 65 \<le> n \<and> n \<le> 70 then Some (n - 55)
               else None)
      in case v of None \<Rightarrow> None | Some d \<Rightarrow> if d < b then Some d else None)"

fun radix_val :: "nat \<Rightarrow> nat \<Rightarrow> string \<Rightarrow> nat option" where
  "radix_val b acc [] = Some acc"
| "radix_val b acc (c # cs) =
     (case radix_digit b c of None \<Rightarrow> None | Some d \<Rightarrow> radix_val b (b * acc + d) cs)"

definition NonDecimalIntegerLiteral :: "nat \<Rightarrow> string \<Rightarrow> jsnum" where
  "NonDecimalIntegerLiteral b ds =
     (if ds = [] then NaN
      else case radix_val b 0 ds of None \<Rightarrow> NaN | Some n \<Rightarrow> Fin (of_nat n))"

definition ExponentPart :: "string \<Rightarrow> int option" where
  "ExponentPart s =
     (case s of
        [] \<Rightarrow> Some 0
      | c # t \<Rightarrow>
          if c = CHR ''e'' \<or> c = CHR ''E'' then
            (let neg = (case t of [] \<Rightarrow> False | d # _ \<Rightarrow> d = CHR ''-'');
                 ds = (case t of [] \<Rightarrow> []
                       | d # u \<Rightarrow> if d = CHR ''-'' \<or> d = CHR ''+'' then u else t)
             in if ds \<noteq> [] \<and> list_all is_digit ds
                then Some (if neg then - int (digits_val ds) else int (digits_val ds))
                else None)
          else None)"

definition StrUnsignedDecimalLiteral :: "string \<Rightarrow> jsnum" where
  "StrUnsignedDecimalLiteral s =
     (if s = ''Infinity'' then PInf
      else
        let ip = takeWhile is_digit s;
            r1 = dropWhile is_digit s;
            fp = (case r1 of [] \<Rightarrow> []
                  | c # t \<Rightarrow> if c = CHR ''.'' then takeWhile is_digit t else []);
            r2 = (case r1 of [] \<Rightarrow> []
                  | c # t \<Rightarrow> if c = CHR ''.'' then dropWhile is_digit t else r1)
        in if ip = [] \<and> fp = [] then NaN
           else case ExponentPart r2 of
                  None \<Rightarrow> NaN
                | Some e \<Rightarrow> Fin (of_nat (digits_val (ip @ fp)) * pow10 (e - int (length fp))))"

definition StrDecimalLiteral :: "string \<Rightarrow> jsnum" where
  "StrDecimalLiteral s =
     (case s of
        [] \<Rightarrow> NaN
      | c # t \<Rightarrow>
          if c = CHR ''+'' then StrUnsignedDecimalLiteral t
          else if c = CHR ''-'' then - StrUnsignedDecimalLiteral t
          else StrUnsignedDecimalLiteral s)"

definition StrNumericLiteral :: "string \<Rightarrow> jsnum" where
  "StrNumericLiteral s =
     (case s of
        c # d # t \<Rightarrow>
          if c = CHR ''0'' \<and> (d = CHR ''x'' \<or> d = CHR ''X'') then NonDecimalIntegerLiteral 16 t
          else if c = CHR ''0'' \<and> (d = CHR ''o'' \<or> d = CHR ''O'') then NonDecimalIntegerLiteral 8 t
          else if c = CHR ''0'' \<and> (d = CHR ''b'' \<or> d = CHR ''B'') then NonDecimalIntegerLiteral 2 t
          else StrDecimalLiteral s
      | _ \<Rightarrow> StrDecimalLiteral s)"

text \<open>
  \<^verbatim>\<open>Number(s)\<close> for a string \<open>s\<close>: white space is trimmed, the empty string is \<open>0\<close>, a
  numeric literal has its value, and every other string is \<open>NaN\<close>.
\<close>

definition Number :: "string \<Rightarrow> jsnum" where
  "Number s = (let t = trim s in if t = [] then Fin 0 else StrNumericLiteral t)"

subsection \<open>String helpers\<close>

text \<open>\<^verbatim>\<open>str.split(sep)\<close> for a separator of one character: never the empty list.\<close>

fun split_str :: "char \<Rightarrow> string \<Rightarrow> string list" where
  "split_str sep [] = [[]]"
| "split_str sep (c # cs) =
     (if c = sep then [] # split_str sep cs
      else case split_str sep cs of
             [] \<Rightarrow> [[c]]
           | p # ps \<Rightarrow> (c # p) # ps)"

definition padStart :: "nat \<Rightarrow> char \<Rightarrow> string \<Rightarrow> string" where
  "padStart n c s = replicate (n - length s) c @ s"

text \<open>\<^verbatim>\<open>String(n)\<close> for a natural number below \<open>10^21\<close>: its decimal digits.\<close>

fun String_nat :: "nat \<Rightarrow> string" where
  "String_nat n =
     (if n < 10 then [char_of (48 + n)]
      else String_nat (n div 10) @ [char_of (48 + n mod 10)])"

section \<open>Money: \<^verbatim>\<open>amountToFils\<close> and \<^verbatim>\<open>filsToAmountString\<close>\<close>

text \<open>
  \<^verbatim>\<open>
  function amountToFils(amount) {
    const str = String(amount);
    const [intPart, decPart = ""] = str.split(".");
    const paddedDec = (decPart + "000").slice(0, 3);
    const value = Number(intPart) * 1000 + Number(paddedDec);
    return value;
  }
  \<close>
  Every caller passes a string. The destructuring takes the first two pieces of the split
  and ignores the others.
\<close>

definition amountToFils :: "string \<Rightarrow> jsnum" where
  "amountToFils str =
     (case split_str (CHR ''.'') str of
        [] \<Rightarrow> NaN
      | intPart # rest \<Rightarrow>
          (let decPart = (case rest of [] \<Rightarrow> [] | d # _ \<Rightarrow> d);
               paddedDec = take 3 (decPart @ ''000'')
           in Number intPart * Fin 1000 + Number paddedDec))"

text \<open>
  \<^verbatim>\<open>
  function filsToAmountString(filsInt) {
    const isNegative = filsInt < 0;
    const v = Math.abs(filsInt);
    const intPart = Math.floor(v / 1000);
    const decPart = String(v % 1000).padStart(3, "0");
    return (isNegative ? "-" : "") + intPart + "." + decPart;
  }
  \<close>
  on an integer \<open>filsInt\<close>.
\<close>

definition filsToAmountString :: "int \<Rightarrow> string" where
  "filsToAmountString filsInt =
     (let isNegative = (filsInt < 0);
          v = nat \<bar>filsInt\<bar>;
          intPart = v div 1000;
          decPart = padStart 3 (CHR ''0'') (String_nat (v mod 1000))
      in (if isNegative then ''-'' else '''') @ String_nat intPart @ ''.'' @ decPart)"

section \<open>The month's ledger\<close>

text \<open>
  The entries are the objects the three forms build. The \<open>reason\<close> of a lending entry can
  become \<^verbatim>\<open>undefined\<close> in \<^verbatim>\<open>handleEdit\<close>, so it is optional.
\<close>

record income_entry =
  i_date :: string
  i_source :: string
  i_amountFils :: jsnum
  i_currency :: string
  i_notes :: string

record expense_entry =
  e_date :: string
  e_category :: string
  e_amountFils :: jsnum
  e_currency :: string
  e_method :: string
  e_notes :: string

record lending_entry =
  l_date :: string
  l_name :: string
  l_amountFils :: jsnum
  l_currency :: string
  l_reason :: "string option"
  l_type :: string
  l_status :: string

record monthData =
  income :: "income_entry list"
  expenses :: "expense_entry list"
  lending :: "lending_entry list"
  wallet :: jsnum
  savings :: jsnum

text \<open>What \<^verbatim>\<open>loadMonthData\<close> returns for a month with nothing stored.\<close>

definition loadMonthData_empty :: monthData where
  "loadMonthData_empty =
     \<lparr>income = [], expenses = [], lending = [], wallet = Fin 0, savings = Fin 0\<rparr>"

subsection \<open>The three forms\<close>

text \<open>
  Each submit handler reads its fields, returns early when a required one is empty, pushes
  the new entry and adjusts the balances for a KWD entry. The state is the global
  \<^verbatim>\<open>monthData\<close>, passed in and returned.
\<close>

definition incomeForm_submit ::
  "string \<Rightarrow> string \<Rightarrow> string \<Rightarrow> string \<Rightarrow> string \<Rightarrow> monthData \<Rightarrow> monthData" where
  "incomeForm_submit date sourceRaw amountStr currency notesRaw md =
     (let source = trim sourceRaw; notes = trim notesRaw
      in if date = [] \<or> source = [] \<or> amountStr = [] then md
         else
           let amountFils = amountToFils amountStr;
               entry = \<lparr>i_date = date, i_source = source, i_amountFils = amountFils,
                        i_currency = currency, i_notes = notes\<rparr>;
               md1 = md\<lparr>income := income md @ [entry]\<rparr>
           in if currency = ''KWD'' then md1\<lparr>wallet := wallet md1 + amountFils\<rparr> else md1)"

definition expenseForm_submit ::
  "string \<Rightarrow> string \<Rightarrow> string \<Rightarrow> string \<Rightarrow> string \<Rightarrow> string \<Rightarrow> monthData \<Rightarrow> monthData" where
  "expenseForm_submit date categoryRaw amountStr currency method notesRaw md =
     (let category = trim categoryRaw; notes = trim notesRaw
      in if date = [] \<or> category = [] \<or> amountStr = [] then md
         else
           let amountFils = amountToFils amountStr;
               entry = \<lparr>e_date = date, e_category = category, e_amountFils = amountFils,
                        e_currency = currency, e_method = method, e_notes = notes\<rparr>;
               md1 = md\<lparr>expenses := expenses md @ [entry]\<rparr>
           in if currency = ''KWD'' then
                (if method = ''wallet'' then md1\<lparr>wallet := wallet md1 - amountFils\<rparr>
                 else if method = ''bank'' then md1\<lparr>savings := savings md1 - amountFils\<rparr>
                 else md1)
              else md1)"

definition lbForm_submit ::
  "string \<Rightarrow> string \<Rightarrow> string \<Rightarrow> string \<Rightarrow> string \<Rightarrow> string \<Rightarrow> string \<Rightarrow> monthData
     \<Rightarrow> monthData" where
  "lbForm_submit date nameRaw amountStr currency reasonRaw type status md =
     (let name = trim nameRaw; reason = trim reasonRaw
      in if date = [] \<or> name = [] \<or> amountStr = [] then md
         else
           let amountFils = amountToFils amountStr;
               entry = \<lparr>l_date = date, l_name = name, l_amountFils = amountFils,
                        l_currency = currency, l_reason = Some reason, l_type = type,
                        l_status = status\<rparr>
           in md\<lparr>lending := lending md @ [entry]\<rparr>)"

subsection \<open>\<^verbatim>\<open>handleEdit\<close> and \<^verbatim>\<open>handleDelete\<close>\<close>

text \<open>
  \<^verbatim>\<open>prompt\<close> returns the text typed, or \<^verbatim>\<open>null\<close> when the dialog is cancelled. The
  answers to the prompts of one edit are the inputs of the model; an answer the code does
  not ask for (the method of an income entry) is ignored.
\<close>

record edit_answers =
  r_date :: "string option"
  r_main :: "string option"
  r_amount :: "string option"
  r_currency :: "string option"
  r_notes :: "string option"
  r_method :: "string option"
  r_type :: "string option"
  r_status :: "string option"

text \<open>\<^verbatim>\<open>prompt(...) || dflt\<close>: \<^verbatim>\<open>null\<close> and the empty string are falsy.\<close>

definition or_default :: "string option \<Rightarrow> 'a \<Rightarrow> (string \<Rightarrow> 'a) \<Rightarrow> 'a" where
  "or_default r dflt conv =
     (case r of None \<Rightarrow> dflt | Some s \<Rightarrow> if s = [] then dflt else conv s)"

text \<open>\<^verbatim>\<open>newAmountStr ? amountToFils(newAmountStr) : entry.amountFils\<close>\<close>

definition newAmountFils_of :: "string option \<Rightarrow> jsnum \<Rightarrow> jsnum" where
  "newAmountFils_of newAmountStr old = or_default newAmountStr old amountToFils"

text \<open>
  The branch of \<^verbatim>\<open>handleEdit\<close> for \<^verbatim>\<open>type === "income"\<close>, in the order of the source: the
  answers are read, the old impact is reverted from the stored fields, the entry is
  overwritten in place, the new impact is applied.
\<close>

definition handleEdit_income :: "nat \<Rightarrow> edit_answers \<Rightarrow> monthData \<Rightarrow> monthData" where
  "handleEdit_income index p md =
     (let entry = income md ! index;
          newDate = or_default (r_date p) (i_date entry) id;
          newMainField = or_default (r_main p) (i_source entry) id;
          newCurrency = or_default (r_currency p) (i_currency entry) id;
          newNotes = or_default (r_notes p) (i_notes entry) id;
          md1 = (if i_currency entry = ''KWD''
                 then md\<lparr>wallet := wallet md - i_amountFils entry\<rparr> else md);
          newAmountFils = newAmountFils_of (r_amount p) (i_amountFils entry);
          entry' = entry\<lparr>i_date := newDate, i_source := newMainField,
                         i_amountFils := newAmountFils, i_currency := newCurrency,
                         i_notes := newNotes\<rparr>;
          md2 = md1\<lparr>income := (income md1)[index := entry']\<rparr>
      in if i_currency entry' = ''KWD''
         then md2\<lparr>wallet := wallet md2 + i_amountFils entry'\<rparr> else md2)"

definition handleEdit_expense :: "nat \<Rightarrow> edit_answers \<Rightarrow> monthData \<Rightarrow> monthData" where
  "handleEdit_expense index p md =
     (let entry = expenses md ! index;
          newDate = or_default (r_date p) (e_date entry) id;
          newMainField = or_default (r_main p) (e_category entry) id;
          newCurrency = or_default (r_currency p) (e_currency entry) id;
          newNotes = or_default (r_notes p) (e_notes entry) id;
          newMethod = or_default (r_method p) (e_method entry) id;
          md1 = (if e_currency entry = ''KWD'' then
                   (if e_method entry = ''wallet''
                    then md\<lparr>wallet := wallet md + e_amountFils entry\<rparr>
                    else if e_method entry = ''bank''
                    then md\<lparr>savings := savings md + e_amountFils entry\<rparr>
                    else md)
                 else md);
          newAmountFils = newAmountFils_of (r_amount p) (e_amountFils entry);
          entry' = entry\<lparr>e_date := newDate, e_category := newMainField,
                         e_amountFils := newAmountFils, e_currency := newCurrency,
                         e_notes := newNotes, e_method := newMethod\<rparr>;
          md2 = md1\<lparr>expenses := (expenses md1)[index := entry']\<rparr>
      in if e_currency entry' = ''KWD'' then
           (if e_method entry' = ''wallet''
            then md2\<lparr>wallet := wallet md2 - e_amountFils entry'\<rparr>
            else if e_method entry' = ''bank''
            then md2\<lparr>savings := savings md2 - e_amountFils entry'\<rparr>
            else md2)
         else md2)"

text \<open>
  A lending entry has no \<^verbatim>\<open>notes\<close> field, so \<^verbatim>\<open>entry.notes\<close> is \<^verbatim>\<open>undefined\<close> and the
  new reason is the answer to the notes prompt, or \<^verbatim>\<open>undefined\<close>.
\<close>

definition handleEdit_lending :: "nat \<Rightarrow> edit_answers \<Rightarrow> monthData \<Rightarrow> monthData" where
  "handleEdit_lending index p md =
     (let entry = lending md ! index;
          newDate = or_default (r_date p) (l_date entry) id;
          newMainField = or_default (r_main p) (l_name entry) id;
          newCurrency = or_default (r_currency p) (l_currency entry) id;
          newNotes = or_default (r_notes p) None Some;
          newType = or_default (r_type p) (l_type entry) id;
          newStatus = or_default (r_status p) (l_status entry) id;
          newAmountFils = newAmountFils_of (r_amount p) (l_amountFils entry);
          entry' = entry\<lparr>l_date := newDate, l_name := newMainField,
                         l_amountFils := newAmountFils, l_currency := newCurrency,
                         l_reason := newNotes, l_type := newType, l_status := newStatus\<rparr>
      in md\<lparr>lending := (lending md)[index := entry']\<rparr>)"

text \<open>
  \<^verbatim>\<open>handleEdit(type, index)\<close>: the entry is looked up by type and index, and the handler
  returns when there is none (an unknown type, or an index past the end of the array).
\<close>

definition handleEdit :: "string \<Rightarrow> nat \<Rightarrow> edit_answers \<Rightarrow> monthData \<Rightarrow> monthData" where
  "handleEdit type index p md =
     (if type = ''income'' then
        (if index < length (income md) then handleEdit_income index p md else md)
      else if type = ''expense'' then
        (if index < length (expenses md) then handleEdit_expense index p md else md)
      else if type = ''lending'' then
        (if index < length (lending md) then handleEdit_lending index p md else md)
      else md)"

text \<open>\<^verbatim>\<open>arr.splice(index, 1)\<close> for an index inside the array.\<close>

definition splice1 :: "nat \<Rightarrow> 'a list \<Rightarrow> 'a list" where
  "splice1 index xs = take index xs @ drop (Suc index) xs"

text \<open>
  \<^verbatim>\<open>handleDelete(type, index)\<close>; \<open>confirmed\<close> is the answer to \<^verbatim>\<open>confirm("Delete this entry?")\<close>.
\<close>

definition handleDelete :: "string \<Rightarrow> nat \<Rightarrow> bool \<Rightarrow> monthData \<Rightarrow> monthData" where
  "handleDelete type index confirmed md =
     (if \<not> confirmed then md
      else if type = ''income'' then
        (if index < length (income md) then
           (let entry = income md ! index;
                md1 = (if i_currency entry = ''KWD''
                       then md\<lparr>wallet := wallet md - i_amountFils entry\<rparr> else md)
            in md1\<lparr>income := splice1 index (income md1)\<rparr>)
         else md)
      else if type = ''expense'' then
        (if index < length (expenses md) then
           (let entry = expenses md ! index;
                md1 = (if e_currency entry = ''KWD'' then
                         (if e_method entry = ''wallet''
                          then md\<lparr>wallet := wallet md + e_amountFils entry\<rparr>
                          else if e_method entry = ''bank''
                          then md\<lparr>savings := savings md + e_amountFils entry\<rparr>
                          else md)
                       else md)
            in md1\<lparr>expenses := splice1 index (expenses md1)\<rparr>)
         else md)
      else if type = ''lending'' then
        (if index < length (lending md)
         then md\<lparr>lending := splice1 index (lending md)\<rparr> else md)
      else md)"

subsection \<open>Savings management\<close>

text \<open>
  The two buttons alert and return when the amount is refused. The alert
  \<^verbatim>\<open>"Invalid amount (check wallet balance)."\<close> is the error \<open>InsufficientFunds\<close>, the alert
  \<^verbatim>\<open>"Invalid amount."\<close> is \<open>InvalidAmount\<close>. A handler returns the alert it raised, if any,
  and the ledger it leaves.
\<close>

datatype error = InsufficientFunds | InvalidAmount

text \<open>The wallet-to-savings handler from the parsed amount on.\<close>

definition transferWalletToSavings :: "jsnum \<Rightarrow> monthData \<Rightarrow> error option \<times> monthData" where
  "transferWalletToSavings amountFils md =
     (if js_le amountFils (Fin 0) \<or> js_gt amountFils (wallet md) then (Some InsufficientFunds, md)
      else
        (let md1 = md\<lparr>wallet := wallet md - amountFils\<rparr>
         in (None, md1\<lparr>savings := savings md1 + amountFils\<rparr>)))"

definition walletToSavingsBtn_click :: "string option \<Rightarrow> monthData \<Rightarrow> error option \<times> monthData" where
  "walletToSavingsBtn_click amountStr md =
     (case amountStr of
        None \<Rightarrow> (None, md)
      | Some s \<Rightarrow> if s = [] then (None, md) else transferWalletToSavings (amountToFils s) md)"

text \<open>The income-to-savings handler from the parsed amount on.\<close>

definition creditSavingsDirectly :: "jsnum \<Rightarrow> monthData \<Rightarrow> error option \<times> monthData" where
  "creditSavingsDirectly amountFils md =
     (if js_le amountFils (Fin 0) then (Some InvalidAmount, md)
      else (None, md\<lparr>savings := savings md + amountFils\<rparr>))"


section \<open>Totals per currency and the lending summary\<close>





section \<open>User actions and runs\<close>














section \<open>Decimal numerals, as the specification words them\<close>


section \<open>Vocabulary of the proofs\<close>









section \<open>Parsing digit strings\<close>

declare String_nat.simps [simp del]

lemma split_str_no_sep: "sep \<notin> set s \<Longrightarrow> split_str sep s = [s]"
  by (induction s) auto

lemma split_str_first: "sep \<notin> set a \<Longrightarrow> split_str sep (a @ sep # b) = a # split_str sep b"
  by (induction a) auto

lemma digit_not_ws: "is_digit c \<Longrightarrow> \<not> StrWhiteSpaceChar c"
  by (auto simp: is_digit_def StrWhiteSpaceChar_def)

lemma digit_not_letter:
  "is_digit c \<Longrightarrow>
     c \<noteq> CHR ''x'' \<and> c \<noteq> CHR ''X'' \<and> c \<noteq> CHR ''o'' \<and> c \<noteq> CHR ''O'' \<and> c \<noteq> CHR ''b'' \<and>
     c \<noteq> CHR ''B'' \<and> c \<noteq> CHR ''+'' \<and> c \<noteq> CHR ''-'' \<and> c \<noteq> CHR ''.'' \<and> c \<noteq> CHR ''I''"
  by (auto simp: is_digit_def)

lemma digits_no_point: "list_all is_digit ds \<Longrightarrow> CHR ''.'' \<notin> set ds"
  using digit_not_letter by (auto simp: list_all_iff)

lemma trim_id:
  assumes "s \<noteq> []" "\<not> StrWhiteSpaceChar (hd s)" "\<not> StrWhiteSpaceChar (last s)"
  shows "trim s = s"
proof -
  from assms have pre: "dropWhile StrWhiteSpaceChar s = s"
    by (cases s) auto
  from assms have "rev s \<noteq> []" "\<not> StrWhiteSpaceChar (hd (rev s))"
    by (auto simp: hd_rev)
  then have post: "dropWhile StrWhiteSpaceChar (rev s) = rev s"
    by (cases "rev s") auto
  show ?thesis
    unfolding trim_def by (simp add: pre post)
qed

lemma takeWhile_all: "list_all P xs \<Longrightarrow> takeWhile P xs = xs"
  by (induction xs) auto

lemma dropWhile_all: "list_all P xs \<Longrightarrow> dropWhile P xs = []"
  by (induction xs) auto

lemma StrUnsigned_digits:
  assumes "ds \<noteq> []" "list_all is_digit ds"
  shows "StrUnsignedDecimalLiteral ds = Fin (of_nat (digits_val ds))"
proof -
  from assms obtain c t where "ds = c # t" "is_digit c"
    by (cases ds) auto
  then have "ds \<noteq> ''Infinity''"
    using digit_not_letter[of c] by auto
  then show ?thesis
    using assms
    by (simp add: StrUnsignedDecimalLiteral_def takeWhile_all dropWhile_all ExponentPart_def
        pow10_def)
qed

lemma StrDecimal_digits:
  assumes "ds \<noteq> []" "list_all is_digit ds"
  shows "StrDecimalLiteral ds = StrUnsignedDecimalLiteral ds"
proof -
  from assms obtain c t where "ds = c # t" "is_digit c"
    by (cases ds) auto
  then show ?thesis
    using digit_not_letter[of c] by (simp add: StrDecimalLiteral_def)
qed

lemma StrNumeric_digits:
  assumes "list_all is_digit ds"
  shows "StrNumericLiteral ds = StrDecimalLiteral ds"
proof (cases ds)
  case Nil
  then show ?thesis by (simp add: StrNumericLiteral_def)
next
  case outer: (Cons c t)
  show ?thesis
  proof (cases t)
    case Nil
    then show ?thesis using outer by (simp add: StrNumericLiteral_def)
  next
    case (Cons d u)
    then have "is_digit d" using assms outer by simp
    then show ?thesis
      using digit_not_letter[of d] Cons outer by (simp add: StrNumericLiteral_def)
  qed
qed

lemma Number_digits:
  assumes "ds \<noteq> []" "list_all is_digit ds"
  shows "Number ds = Fin (of_nat (digits_val ds))"
proof -
  from assms have "is_digit (hd ds)" "is_digit (last ds)"
    by (auto simp: list_all_iff)
  then have "trim ds = ds"
    using assms(1) by (simp add: trim_id digit_not_ws)
  then show ?thesis
    using assms
    by (simp add: Number_def StrNumeric_digits StrDecimal_digits StrUnsigned_digits)
qed

lemma Number_neg_digits:
  assumes "ds \<noteq> []" "list_all is_digit ds"
  shows "Number (CHR ''-'' # ds) = Fin (- of_nat (digits_val ds))"
proof -
  from assms have d: "is_digit (last ds)"
    by (auto simp: list_all_iff)
  have l: "last (CHR ''-'' # ds) = last ds"
    using assms(1) by simp
  have "\<not> StrWhiteSpaceChar (CHR ''-'')"
    by (simp add: StrWhiteSpaceChar_def)
  then have t: "trim (CHR ''-'' # ds) = CHR ''-'' # ds"
    using digit_not_ws[OF d] l by (intro trim_id) simp_all
  have n: "StrNumericLiteral (CHR ''-'' # ds) = StrDecimalLiteral (CHR ''-'' # ds)"
    by (simp add: StrNumericLiteral_def split: list.splits)
  have "StrDecimalLiteral (CHR ''-'' # ds) = - StrUnsignedDecimalLiteral ds"
    by (simp add: StrDecimalLiteral_def)
  then show ?thesis
    using assms by (simp add: Number_def t n StrUnsigned_digits)
qed

text \<open>The padded fraction: three digits whatever the length of the fraction typed.\<close>

lemma paddedDec_digits:
  assumes "list_all is_digit fp"
  shows "take 3 (fp @ ''000'') \<noteq> [] \<and> list_all is_digit (take 3 (fp @ ''000''))"
proof -
  have z: "list_all is_digit ''000''"
    by (simp add: is_digit_def)
  have "list_all is_digit (fp @ ''000'')"
    using assms z by simp
  then have "list_all is_digit (take 3 (fp @ ''000''))"
    unfolding list_all_iff by (meson in_set_takeD)
  moreover have "take 3 (fp @ ''000'') \<noteq> []"
    by (cases fp) auto
  ultimately show ?thesis by simp
qed

lemma amountToFils_point:
  assumes "CHR ''.'' \<notin> set a" "list_all is_digit fp"
  shows "amountToFils (a @ CHR ''.'' # fp) =
           Number a * Fin 1000 + Fin (of_nat (digits_val (take 3 (fp @ ''000''))))"
proof -
  have "split_str (CHR ''.'') (a @ CHR ''.'' # fp) = [a, fp]"
    using assms by (simp add: split_str_first split_str_no_sep digits_no_point)
  then show ?thesis
    using paddedDec_digits[OF assms(2)] by (simp add: amountToFils_def Number_digits)
qed

section \<open>Printing and parsing back\<close>

lemma digits_val_snoc: "digits_val (xs @ [c]) = 10 * digits_val xs + digit_val c"
  by (simp add: digits_val_def)

lemma digit_char:
  assumes "d < 10"
  shows "is_digit (char_of (48 + d)) \<and> digit_val (char_of (48 + d)) = d"
  using assms by (simp add: is_digit_def digit_val_def)

lemma String_nat_digits:
  "String_nat n \<noteq> [] \<and> list_all is_digit (String_nat n) \<and> digits_val (String_nat n) = n"
proof (induction n rule: String_nat.induct)
  case (1 n)
  show ?case
  proof (cases "n < 10")
    case True
    then show ?thesis
      using digit_char[of n] by (subst (1 2 3) String_nat.simps) (simp add: digits_val_def)
  next
    case False
    have "n mod 10 < 10" by simp
    from digit_char[OF this] show ?thesis
      using False 1 by (subst (1 2 3) String_nat.simps) (simp add: digits_val_snoc)
  qed
qed

lemma String_nat_length: "0 < k \<Longrightarrow> n < 10 ^ k \<Longrightarrow> length (String_nat n) \<le> k"
proof (induction k arbitrary: n)
  case 0
  then show ?case by simp
next
  case (Suc k)
  show ?case
  proof (cases "n < 10")
    case True
    then show ?thesis by (subst String_nat.simps) simp
  next
    case False
    then have "0 < k" using Suc.prems by (cases k) auto
    moreover have "n div 10 < 10 ^ k" using Suc.prems by simp
    ultimately have "length (String_nat (n div 10)) \<le> k" by (rule Suc.IH)
    then show ?thesis using False by (subst String_nat.simps) simp
  qed
qed

lemma digits_val_zeros: "digits_val (replicate j (CHR ''0'') @ s) = digits_val s"
proof (induction j)
  case 0
  then show ?case by simp
next
  case (Suc j)
  then show ?case by (simp add: digits_val_def digit_val_def)
qed

lemma decPart_digits:
  assumes "m < 1000"
  shows "length (padStart 3 (CHR ''0'') (String_nat m)) = 3 \<and>
         list_all is_digit (padStart 3 (CHR ''0'') (String_nat m)) \<and>
         digits_val (padStart 3 (CHR ''0'') (String_nat m)) = m"
proof -
  have "length (String_nat m) \<le> 3"
    using String_nat_length[of 3 m] assms by simp
  moreover have "is_digit (CHR ''0'')" by (simp add: is_digit_def)
  ultimately show ?thesis
    using String_nat_digits[of m]
    by (auto simp: padStart_def digits_val_zeros list_all_iff)
qed

text \<open>
  What the round trip through \<^verbatim>\<open>filsToAmountString\<close> and \<^verbatim>\<open>amountToFils\<close> returns: the amount
  itself when it is not negative, and otherwise the fraction minus the integer part.
\<close>

lemma roundtrip_value:
  "amountToFils (filsToAmountString n) =
     (if 0 \<le> n then fils n
      else fils (int (nat \<bar>n\<bar> mod 1000) - 1000 * int (nat \<bar>n\<bar> div 1000)))"
proof -
  define v where "v = nat \<bar>n\<bar>"
  let ?ip = "String_nat (v div 1000)"
  let ?dp = "padStart 3 (CHR ''0'') (String_nat (v mod 1000))"
  have dp: "length ?dp = 3" "list_all is_digit ?dp" "digits_val ?dp = v mod 1000"
    using decPart_digits[of "v mod 1000"] by simp_all
  have ip: "?ip \<noteq> []" "list_all is_digit ?ip" "digits_val ?ip = v div 1000"
    using String_nat_digits[of "v div 1000"] by simp_all
  have pad: "take 3 (?dp @ ''000'') = ?dp"
    using dp(1) by simp
  have str: "filsToAmountString n = (if n < 0 then ''-'' else []) @ ?ip @ CHR ''.'' # ?dp"
    by (simp add: filsToAmountString_def Let_def v_def)
  show ?thesis
  proof (cases "0 \<le> n")
    case True
    have "amountToFils (?ip @ CHR ''.'' # ?dp) =
        Fin (of_nat (v div 1000) * 1000 + of_nat (v mod 1000))"
      using amountToFils_point[of ?ip ?dp] ip dp
      by (simp add: pad digits_no_point Number_digits)
    also have "(of_nat (v div 1000) * 1000 + of_nat (v mod 1000) :: rat) =
        of_nat (v div 1000 * 1000 + v mod 1000)"
      by (simp only: of_nat_add of_nat_mult of_nat_numeral)
    also have "v div 1000 * 1000 + v mod 1000 = v"
      by (simp only: div_mult_mod_eq)
    also have "(of_nat v :: rat) = of_int n"
      using True by (simp add: v_def)
    finally show ?thesis
      using True by (simp add: str fils_def)
  next
    case False
    have "CHR ''.'' \<notin> set (CHR ''-'' # ?ip)"
      using ip(2) by (simp add: digits_no_point)
    from amountToFils_point[OF this dp(2)]
    have "amountToFils (CHR ''-'' # ?ip @ CHR ''.'' # ?dp) =
        Fin (of_nat (v mod 1000) - 1000 * of_nat (v div 1000))"
      using ip dp by (simp add: pad Number_neg_digits)
    then show ?thesis
      using False by (simp add: str fils_def v_def)
  qed
qed

lemma roundtrip_nonnegative: "0 \<le> n \<Longrightarrow> amountToFils (filsToAmountString n) = fils n"
  by (simp add: roundtrip_value)

section \<open>The claims about Money\<close>

text \<open>
  Claim C3. The specification asks that parsing the decimal string produced for any integer
  fils amount gives the amount back. The program does so for the amounts that are not
  negative (\<open>roundtrip_nonnegative\<close>), and not for the others: for \<open>-750\<close> fils
  \<^verbatim>\<open>filsToAmountString\<close> produces \<^verbatim>\<open>"-0.750"\<close>, and \<^verbatim>\<open>amountToFils\<close> reads it as \<open>+750\<close>,
  because the minus sign reaches only the integer part. Likewise \<open>-1250\<close> comes back as
  \<open>-750\<close>.
\<close>

theorem roundtrip_negative_fails:
  "filsToAmountString (- 750) = ''-0.750'' \<and>
   amountToFils (filsToAmountString (- 750)) = Fin 750 \<and>
   amountToFils (filsToAmountString (- 1250)) = Fin (- 750)"
  by code_simp




text \<open>
  An amount text that is no number is stored as \<open>NaN\<close> and stays in the wallet after the
  entry is deleted.
\<close>

lemma unparsed_amount_reaches_wallet:
  "amountToFils ''abc'' = NaN \<and>
   wallet (incomeForm_submit ''2024-01-01'' ''gift'' ''abc'' ''KWD'' '''' loadMonthData_empty) = NaN \<and>
   wallet (handleDelete ''income'' 0 True
     (incomeForm_submit ''2024-01-01'' ''gift'' ''abc'' ''KWD'' '''' loadMonthData_empty)) = NaN"
  by code_simp



section \<open>The claims about the ledger\<close>

text \<open>
  Claim C2. From the empty ledger of a month: an income of \<^verbatim>\<open>"100.000"\<close> KWD leaves the wallet
  at 100000 fils; a wallet expense of \<^verbatim>\<open>"25.500"\<close> KWD leaves it at 74500; moving \<^verbatim>\<open>"50.000"\<close>
  to savings leaves wallet 24500 and savings 50000; editing the expense to \<^verbatim>\<open>"10.000"\<close>
  leaves wallet 40000; deleting the income leaves wallet -60000. No floor stops the wallet
  from going negative.
\<close>

theorem scenario_balances:
  "(let s1 = incomeForm_submit ''2024-01-01'' ''salary'' ''100.000'' ''KWD'' ''''
               loadMonthData_empty;
        s2 = expenseForm_submit ''2024-01-02'' ''food'' ''25.500'' ''KWD'' ''wallet'' '''' s1;
        s3 = snd (walletToSavingsBtn_click (Some ''50.000'') s2);
        s4 = handleEdit ''expense'' 0
               \<lparr>r_date = Some ''2024-01-02'', r_main = Some ''food'',
                r_amount = Some ''10.000'', r_currency = Some ''KWD'', r_notes = Some '''',
                r_method = Some ''wallet'', r_type = None, r_status = None\<rparr> s3;
        s5 = handleDelete ''income'' 0 True s4
    in wallet s1 = Fin 100000 \<and> wallet s2 = Fin 74500 \<and>
       wallet s3 = Fin 24500 \<and> savings s3 = Fin 50000 \<and>
       wallet s4 = Fin 40000 \<and> wallet s5 = Fin (- 60000) \<and> savings s5 = Fin 50000)"
  by code_simp

text \<open>
  Claim C4. The wallet-to-savings transfer is refused (\<open>InsufficientFunds\<close>) whenever
  \<^verbatim>\<open>amount <= 0\<close> or \<^verbatim>\<open>amount > wallet\<close>, and then the whole ledger is left as it was;
  otherwise the wallet loses the amount, savings gain it and the entries are untouched.
\<close>

theorem transferWalletToSavings_guarded:
  "(js_le amount (Fin 0) \<or> js_gt amount (wallet md) \<longrightarrow>
      transferWalletToSavings amount md = (Some InsufficientFunds, md)) \<and>
   (\<not> (js_le amount (Fin 0) \<or> js_gt amount (wallet md)) \<longrightarrow>
      fst (transferWalletToSavings amount md) = None \<and>
      wallet (snd (transferWalletToSavings amount md)) = wallet md - amount \<and>
      savings (snd (transferWalletToSavings amount md)) = savings md + amount \<and>
      income (snd (transferWalletToSavings amount md)) = income md \<and>
      expenses (snd (transferWalletToSavings amount md)) = expenses md \<and>
      lending (snd (transferWalletToSavings amount md)) = lending md)"
  by (simp add: transferWalletToSavings_def Let_def)

theorem transferWalletToSavings_guarded_witness:
  "transferWalletToSavings (Fin 0) (loadMonthData_empty\<lparr>wallet := Fin 100\<rparr>) =
     (Some InsufficientFunds, loadMonthData_empty\<lparr>wallet := Fin 100\<rparr>) \<and>
   transferWalletToSavings (Fin 101) (loadMonthData_empty\<lparr>wallet := Fin 100\<rparr>) =
     (Some InsufficientFunds, loadMonthData_empty\<lparr>wallet := Fin 100\<rparr>) \<and>
   fst (transferWalletToSavings (Fin 30) (loadMonthData_empty\<lparr>wallet := Fin 100\<rparr>)) = None \<and>
   wallet (snd (transferWalletToSavings (Fin 30) (loadMonthData_empty\<lparr>wallet := Fin 100\<rparr>))) =
     Fin 70 \<and>
   savings (snd (transferWalletToSavings (Fin 30) (loadMonthData_empty\<lparr>wallet := Fin 100\<rparr>))) =
     Fin 30"
  using transferWalletToSavings_guarded[of "Fin 0" "loadMonthData_empty\<lparr>wallet := Fin 100\<rparr>"]
    transferWalletToSavings_guarded[of "Fin 101" "loadMonthData_empty\<lparr>wallet := Fin 100\<rparr>"]
    transferWalletToSavings_guarded[of "Fin 30" "loadMonthData_empty\<lparr>wallet := Fin 100\<rparr>"]
  by (simp add: js_le_def js_gt_def loadMonthData_empty_def minus_jsnum_def)

text \<open>
  Claim C5. The direct credit to savings is refused (\<open>InvalidAmount\<close>) exactly when
  \<^verbatim>\<open>amount <= 0\<close>, and then the ledger is left as it was; an amount above zero is added to
  savings and the wallet and the entries are untouched, whatever the balances are.
\<close>

theorem creditSavingsDirectly_guarded:
  "(fst (creditSavingsDirectly amount md) = Some InvalidAmount \<longleftrightarrow> js_le amount (Fin 0)) \<and>
   (js_le amount (Fin 0) \<longrightarrow> creditSavingsDirectly amount md = (Some InvalidAmount, md)) \<and>
   (js_gt amount (Fin 0) \<longrightarrow>
      fst (creditSavingsDirectly amount md) = None \<and>
      savings (snd (creditSavingsDirectly amount md)) = savings md + amount \<and>
      wallet (snd (creditSavingsDirectly amount md)) = wallet md \<and>
      income (snd (creditSavingsDirectly amount md)) = income md \<and>
      expenses (snd (creditSavingsDirectly amount md)) = expenses md \<and>
      lending (snd (creditSavingsDirectly amount md)) = lending md)"
proof -
  have "\<not> js_le amount (Fin 0)" if "js_gt amount (Fin 0)"
    using that by (cases amount) (simp_all add: js_le_def js_gt_def)
  then show ?thesis
    by (auto simp: creditSavingsDirectly_def)
qed

theorem creditSavingsDirectly_guarded_witness:
  "creditSavingsDirectly (Fin (- 5)) loadMonthData_empty =
     (Some InvalidAmount, loadMonthData_empty) \<and>
   creditSavingsDirectly (Fin 0) loadMonthData_empty =
     (Some InvalidAmount, loadMonthData_empty) \<and>
   fst (creditSavingsDirectly (Fin 10500) loadMonthData_empty) = None \<and>
   savings (snd (creditSavingsDirectly (Fin 10500) loadMonthData_empty)) = Fin 10500 \<and>
   wallet (snd (creditSavingsDirectly (Fin 10500) loadMonthData_empty)) = Fin 0"
  using creditSavingsDirectly_guarded[of "Fin (- 5)" loadMonthData_empty]
    creditSavingsDirectly_guarded[of "Fin 0" loadMonthData_empty]
    creditSavingsDirectly_guarded[of "Fin 10500" loadMonthData_empty]
  by (simp add: js_le_def js_gt_def loadMonthData_empty_def)

text \<open>
  Claim C9. Creating, editing or deleting a lending entry leaves the wallet and the savings
  as they were, whatever the entry's currency, type, status and amount are.
\<close>

theorem lending_leaves_balances:
  "wallet (lbForm_submit date name amountStr currency reason type status md) = wallet md \<and>
   savings (lbForm_submit date name amountStr currency reason type status md) = savings md \<and>
   wallet (handleEdit ''lending'' index p md) = wallet md \<and>
   savings (handleEdit ''lending'' index p md) = savings md \<and>
   wallet (handleDelete ''lending'' index confirmed md) = wallet md \<and>
   savings (handleDelete ''lending'' index confirmed md) = savings md"
  by (simp add: lbForm_submit_def handleEdit_def handleEdit_lending_def handleDelete_def Let_def)

section \<open>Fils amounts and the totals loops\<close>















section \<open>The claims about the totals\<close>





section \<open>Each handler keeps the residues\<close>





















section \<open>Runs of actions\<close>











end
